theory Spec2Isabelle
  imports Main "HOL-Library.Word" "HOL-Library.Signed_Division"
begin

unbundle bit_operations_syntax

section \<open>Data model\<close>

text \<open>
  The texture manager of \<^verbatim>\<open>rtx_texturemanager.cpp\<close> streams texture data from host memory
  to video memory. Its records are shared through reference-counted pointers
  (\<^verbatim>\<open>Rc<ManagedTexture>\<close>): the pending queue, the texture table and every
  \<^verbatim>\<open>TextureRef\<close> may point to the same record. The model therefore keeps the records in
  an explicit store, and a pointer is an address of that store.
\<close>

type_synonym addr = nat

datatype State = kHostMem | kQueuedForUpload | kVidMem | kFailed

text \<open>
  The fields of \<^verbatim>\<open>ManagedTexture\<close> that the manager reads or writes. The struct is
  declared in \<^verbatim>\<open>rtx_texture.h\<close>, which is not among the files at hand; the fields are
  those the source uses and the spec lists. \<^verbatim>\<open>futureImageDesc.mipLevels\<close> is a
  \<^verbatim>\<open>uint32_t\<close>; the two host buffers are owning pointers that may be null, and only
  whether they are null matters here; the counters are 32-bit words, the hash and the
  completion token 64-bit words.
\<close>

record ManagedTexture =
  state :: State
  mipLevels :: "32 word"
  linearImageDataLargeMips :: "nat option"
  linearImageDataSmallMips :: "nat option"
  numLargeMips :: "32 word"
  completionSyncpt :: "64 word"
  frameQueuedForUpload :: "32 word"
  canDemote :: bool
  assetDataHash :: "64 word"

text \<open>
  Modelled from the spec: \<^verbatim>\<open>TextureRef\<close> is declared in \<^verbatim>\<open>rtx_texture.h\<close>, not
  among the files at hand. It "holds a shared reference to zero-or-one Managed Texture
  Record" and, once the promotion is finalized, the device-resident view handed to the
  consumer.
\<close>

record TextureRef =
  m_managedTexture :: "addr option"
  m_imageView :: "nat option"

text \<open>
  Of an asset the manager reads the content hash only (\<^verbatim>\<open>assetData->hash()\<close>); the
  number of mips stands for what \<^verbatim>\<open>createTexture\<close> takes from it. A colour space is
  passed on to \<^verbatim>\<open>createTexture\<close> unread.
\<close>

record AssetData =
  hash :: "64 word"
  assetMipLevels :: "32 word"

type_synonym ColorSpace = nat

datatype MemoryAperture = HOST

datatype MipsToLoad = HighMips | LowMips | All

type_synonym DxvkError = string

text \<open>
  A call of a collaborator either returns or throws a \<^verbatim>\<open>DxvkError\<close>. The record is
  passed by pointer, so in both cases the caller goes on with the record as the callee left
  it.
\<close>

datatype 'a outcome = Returned 'a | Thrown DxvkError 'a

text \<open>
  The collaborators and the configuration the manager consumes. None of them is defined in
  the files at hand, so each is a parameter of the model:
  the pixel loader \<^verbatim>\<open>TextureUtils::loadTexture\<close>, the promoter
  \<^verbatim>\<open>TextureUtils::promoteHostToVid\<close>, \<^verbatim>\<open>TextureUtils::createTexture\<close>,
  \<^verbatim>\<open>ManagedTexture::demote\<close>, \<^verbatim>\<open>TextureRef::finalizePendingPromotion\<close>,
  \<^verbatim>\<open>DxvkContext::flushCommandList\<close>, the \<^verbatim>\<open>RtxIo\<close> backend and the
  \<^verbatim>\<open>RtxOptions\<close> values. An optional argument that a call site leaves to its default
  is \<open>None\<close>. \<open>flushCommandList\<close> is the error that the flush throws, if it throws.
  \<open>WITH_RTXIO\<close> is the preprocessor switch of the same name. A collaborator gets the
  record it is called on and gives back that record; it cannot reach the queue, the pending
  counter or the table, which are private to the manager.
\<close>

record env =
  WITH_RTXIO :: bool
  rtxIoEnabled :: bool
  rtxIoIsComplete :: "64 word \<Rightarrow> bool"
  enableAsyncTextureUpload :: bool
  asyncTextureUploadPreloadMips :: "32 word"
  alwaysWaitForAsyncTextures :: bool
  assetEstimatedSizeGB :: "32 word"
  loadTexture :: "ManagedTexture \<Rightarrow> MemoryAperture \<Rightarrow> MipsToLoad \<Rightarrow> 32 word option
                    \<Rightarrow> ManagedTexture outcome"
  promoteHostToVid :: "ManagedTexture \<Rightarrow> 32 word option \<Rightarrow> ManagedTexture outcome"
  flushCommandList :: "DxvkError option"
  demote :: "ManagedTexture \<Rightarrow> ManagedTexture"
  finalizePendingPromotion :: "TextureRef \<Rightarrow> ManagedTexture \<Rightarrow> bool \<times> TextureRef"
  createTexture :: "AssetData \<Rightarrow> ColorSpace \<Rightarrow> ManagedTexture"

text \<open>
  The calls made to collaborators are logged in order, so that "no load is performed" is a
  statement about the log.
\<close>

datatype call =
    LoadTexture addr MemoryAperture MipsToLoad "32 word option"
  | PromoteHostToVid addr "32 word option"
  | FlushCommandList
  | Demote addr
  | FinalizePendingPromotion addr
  | CreateTexture "64 word"
  | RtxIoFlush bool
  | NotifyOnAdd
  | NotifyOnSync

text \<open>
  The members of \<^verbatim>\<open>RtxTextureManager\<close>, the store of records, the frame counter of the
  device (\<^verbatim>\<open>m_device->getCurrentFrameId()\<close>) and the log. The store is a list
  and an address is an index into it, so a newly allocated record gets the address
  \<open>length (heap w)\<close> and never overwrites an existing one.
\<close>

record world =
  m_textureQueue :: "addr list"
  m_texturesPending :: "32 word"
  m_textures :: "64 word \<rightharpoonup> addr"
  m_dropRequests :: bool
  m_kickoff :: bool
  m_stopped :: bool
  m_minimumMipLevel :: "32 word"
  heap :: "ManagedTexture list"
  currentFrameId :: "32 word"
  calls :: "call list"

definition lookup :: "ManagedTexture list \<Rightarrow> addr \<Rightarrow> ManagedTexture option" where
  "lookup h a = (if a < length h then Some (h ! a) else None)"

section \<open>Memory pressure: \<^verbatim>\<open>updateMipMapSkipLevel\<close>\<close>

text \<open>
  One entry per heap index \<open>i < memoryHeapCount\<close>: the flags of
  \<^verbatim>\<open>memory.memoryHeaps[i]\<close> and the two \<^verbatim>\<open>VkDeviceSize\<close> counters of
  \<^verbatim>\<open>memHeapInfo.heaps[i]\<close>.
\<close>

record MemoryHeap =
  heapFlags :: "32 word"
  memoryBudget :: "64 word"
  memoryAllocated :: "64 word"

text \<open>
  What the function reads besides the options: the heaps, whether the context is an
  \<^verbatim>\<open>RtxContext\<close>, whether its resource manager reports \<^verbatim>\<open>isResourceReady()\<close>, and
  the result of \<^verbatim>\<open>getAvailableSystemPhysicalMemory\<close> (\<open>None\<close> when it returns false).
\<close>

record MemoryQuery =
  memoryHeaps :: "MemoryHeap list"
  isRtxContext :: bool
  isResourceReady :: bool
  availableSystemPhysicalMemory :: "64 word option"

definition VK_MEMORY_HEAP_DEVICE_LOCAL_BIT :: "32 word" where
  "VK_MEMORY_HEAP_DEVICE_LOCAL_BIT = 1"

definition GB :: "32 word" where
  "GB = 1024"

text \<open>The loop over the heaps, lines 297 to 307; the subtraction is on \<^verbatim>\<open>uint64_t\<close>.\<close>

fun deviceHeapLoop :: "MemoryHeap list \<Rightarrow> 64 word \<Rightarrow> 64 word" where
  "deviceHeapLoop [] availableMemorySizeMib = availableMemorySizeMib"
| "deviceHeapLoop (h # hs) availableMemorySizeMib =
     (if heapFlags h AND VK_MEMORY_HEAP_DEVICE_LOCAL_BIT = 0
      then deviceHeapLoop hs availableMemorySizeMib
      else
        let memSizeMib = drop_bit 20 (memoryBudget h);
            memUsedMib = drop_bit 20 (memoryAllocated h)
        in deviceHeapLoop hs (max (memSizeMib - memUsedMib) availableMemorySizeMib))"

text \<open>
  \<^verbatim>\<open>std::max(int(x) - 2 * GB, 0)\<close> converted back to \<^verbatim>\<open>VkDeviceSize\<close>: the 64-bit
  value is cut to an \<^verbatim>\<open>int\<close>, the subtraction and the maximum are signed. (A signed
  overflow of the subtraction is undefined in C++; the model wraps.)
\<close>

definition maxIntMinus2GB :: "64 word \<Rightarrow> 64 word" where
  "maxIntMinus2GB x =
     (let d = (ucast x :: 32 word) - 2 * GB
      in if d <s 0 then 0 else scast d)"

text \<open>\<^verbatim>\<open>int\<close> division truncates towards zero.\<close>

definition int_div :: "32 word \<Rightarrow> 32 word \<Rightarrow> 32 word" where
  "int_div a b = word_of_int (sint a sdiv sint b)"

text \<open>
  The value of \<^verbatim>\<open>availableMemorySizeMib\<close> when the final loop starts, lines 296 to 326.
\<close>

definition availableMemorySizeMib :: "MemoryQuery \<Rightarrow> 64 word" where
  "availableMemorySizeMib q =
     (let a0 = deviceHeapLoop (memoryHeaps q) 0;
          a1 = (if isRtxContext q \<and> \<not> isResourceReady q then maxIntMinus2GB a0 else a0)
      in case availableSystemPhysicalMemory q of
           None \<Rightarrow> a1
         | Some availableSystemMemorySizeByte \<Rightarrow>
             let assetReservedSizeMib = maxIntMinus2GB (drop_bit 20 availableSystemMemorySizeByte)
             in min a1 assetReservedSizeMib)"

text \<open>
  The final loop, lines 329 to 332. The comparison is between an \<^verbatim>\<open>int\<close> and a
  \<^verbatim>\<open>uint64_t\<close>, so the \<^verbatim>\<open>int\<close> is sign-extended and compared unsigned.
\<close>

function skipLevelLoop :: "32 word \<Rightarrow> 64 word \<Rightarrow> 32 word \<Rightarrow> 32 word" where
  "skipLevelLoop assetSizeMib availableMib level =
     (if (scast assetSizeMib :: 64 word) > availableMib \<and> level < 2
      then skipLevelLoop (int_div assetSizeMib 4) availableMib (level + 1)
      else level)"
  by pat_completeness auto
termination
proof (relation "measure (\<lambda>(a, m, level). 2 - unat level)")
  show "wf (measure (\<lambda>(a, m, level). 2 - unat level))" by simp
next
  fix assetSizeMib :: "32 word" and availableMib :: "64 word" and level :: "32 word"
  assume "(scast assetSizeMib :: 64 word) > availableMib \<and> level < 2"
  then have "level < 2" by simp
  then have "unat level < 2" by (simp add: word_less_nat_alt)
  then have "unat (level + 1) = unat level + 1"
    by (simp add: unat_word_ariths)
  with \<open>unat level < 2\<close> show "((int_div assetSizeMib 4, availableMib, level + 1), (assetSizeMib, availableMib, level))
        \<in> measure (\<lambda>(a, m, level). 2 - unat level)"
    by auto
qed

definition updateMipMapSkipLevel :: "env \<Rightarrow> MemoryQuery \<Rightarrow> world \<Rightarrow> 32 word \<times> world" where
  "updateMipMapSkipLevel e q w =
     (let assetSizeMib = assetEstimatedSizeGB e * GB;
          level = skipLevelLoop assetSizeMib (availableMemorySizeMib q) 0
      in (level, w\<lparr>m_minimumMipLevel := level\<rparr>))"

section \<open>Scheduling: \<^verbatim>\<open>scheduleTextureUpload\<close>\<close>

text \<open>
  Modelled from the spec: \<^verbatim>\<open>clamp\<close> of the utility headers, which are not among the
  files at hand; "clamped to \<open>[0, mipLevels]\<close>". The arguments are \<^verbatim>\<open>int\<close>s, so the
  comparisons are signed.
\<close>

definition clamp :: "32 word \<Rightarrow> 32 word \<Rightarrow> 32 word \<Rightarrow> 32 word" where
  "clamp n lo hi = (if n <s lo then lo else if hi <s n then hi else n)"

definition calcPreloadMips :: "env \<Rightarrow> 32 word \<Rightarrow> 32 word" where
  "calcPreloadMips e mips =
     (if enableAsyncTextureUpload e
      then clamp (asyncTextureUploadPreloadMips e) 0 mips
      else mips)"

text \<open>The value of \<^verbatim>\<open>preloadMips\<close> after lines 78 to 83.\<close>

definition preloadMipsOf :: "env \<Rightarrow> ManagedTexture \<Rightarrow> bool \<Rightarrow> 32 word" where
  "preloadMipsOf e t allowAsync =
     (let preloadMips = (if allowAsync then calcPreloadMips e (mipLevels t) else mipLevels t)
      in if rtxIoEnabled e
         then (if state t \<noteq> kVidMem then preloadMips else 0)
         else preloadMips)"

text \<open>
  The body of the \<^verbatim>\<open>try\<close> block, lines 87 to 94, for the record \<open>t\<close> at address
  \<open>a\<close>: the outcome of the block and the calls it made. \<^verbatim>\<open>numLargeMips\<close> is read as
  an \<^verbatim>\<open>int\<close>. The \<^verbatim>\<open>assert\<close>s of the source are compiled out of a release build and
  are not modelled.
\<close>

definition syncPreload ::
    "env \<Rightarrow> addr \<Rightarrow> ManagedTexture \<Rightarrow> 32 word \<Rightarrow> ManagedTexture outcome \<times> call list" where
  "syncPreload e a t preloadMips =
     (let largestMipToPreload = mipLevels t - preloadMips
      in if largestMipToPreload <s numLargeMips t \<and> linearImageDataLargeMips t = None
         then (case loadTexture e t HOST LowMips None of
                 Thrown err t1 \<Rightarrow> (Thrown err t1, [LoadTexture a HOST LowMips None])
               | Returned t1 \<Rightarrow>
                   (promoteHostToVid e t1 (Some largestMipToPreload),
                    [LoadTexture a HOST LowMips None,
                     PromoteHostToVid a (Some largestMipToPreload)]))
         else (promoteHostToVid e t (Some largestMipToPreload),
               [PromoteHostToVid a (Some largestMipToPreload)]))"

text \<open>Lines 78 to 119: what happens once the \<^verbatim>\<open>switch\<close> has decided to schedule.\<close>

definition scheduleUpload :: "env \<Rightarrow> addr \<Rightarrow> ManagedTexture \<Rightarrow> bool \<Rightarrow> world \<Rightarrow> world" where
  "scheduleUpload e a t allowAsync w =
     (let preloadMips = preloadMipsOf e t allowAsync;
          (r, cs) = (if preloadMips \<noteq> 0 then syncPreload e a t preloadMips
                     else (Returned t, []))
      in case r of
           Thrown err t' \<Rightarrow>
             w\<lparr>heap := (heap w)[a := t'\<lparr>state := kFailed\<rparr>], calls := calls w @ cs\<rparr>
         | Returned t' \<Rightarrow>
             if preloadMips < mipLevels t'
             then w\<lparr>m_textureQueue := m_textureQueue w @ [a],
                    m_texturesPending := m_texturesPending w + 1,
                    heap := (heap w)[a := t'\<lparr>state := kQueuedForUpload,
                                               frameQueuedForUpload := currentFrameId w\<rparr>],
                    calls := calls w @ cs @ [NotifyOnAdd]\<rparr>
             else w\<lparr>heap := (heap w)[a := t'\<lparr>linearImageDataLargeMips := None\<rparr>],
                    calls := calls w @ cs\<rparr>)"

text \<open>
  The whole function. It returns the reference, which \<^verbatim>\<open>finalizePendingPromotion\<close> may
  have changed, and the new world. A reference always points to a live record; for an
  address outside the store the model does nothing.
\<close>

definition scheduleTextureUpload ::
    "env \<Rightarrow> TextureRef \<Rightarrow> bool \<Rightarrow> world \<Rightarrow> TextureRef \<times> world" where
  "scheduleTextureUpload e texture allowAsync w =
     (case m_managedTexture texture of
        None \<Rightarrow> (texture, w)
      | Some a \<Rightarrow>
          (case lookup (heap w) a of
             None \<Rightarrow> (texture, w)
           | Some t \<Rightarrow>
               (case state t of
                  kVidMem \<Rightarrow>
                    let (finalized, texture') = finalizePendingPromotion e texture t;
                        w1 = w\<lparr>calls := calls w @ [FinalizePendingPromotion a]\<rparr>
                    in if finalized then (texture', w1)
                       else (texture', scheduleUpload e a t allowAsync w1)
                | kQueuedForUpload \<Rightarrow>
                    if WITH_RTXIO e \<and> rtxIoEnabled e \<and> rtxIoIsComplete e (completionSyncpt t)
                    then let t' = t\<lparr>state := kVidMem\<rparr>;
                             (finalized, texture') = finalizePendingPromotion e texture t'
                         in (texture', w\<lparr>heap := (heap w)[a := t'],
                                          calls := calls w @ [FinalizePendingPromotion a]\<rparr>)
                    else (texture, w)
                | kFailed \<Rightarrow> (texture, scheduleUpload e a t allowAsync w)
                | kHostMem \<Rightarrow> (texture, scheduleUpload e a t allowAsync w))))"

section \<open>The worker: \<^verbatim>\<open>uploadTexture\<close> and \<^verbatim>\<open>threadFunc\<close>\<close>

text \<open>
  Lines 225 to 251. Every error of the \<^verbatim>\<open>try\<close> block ends in the handler, which sets
  \<open>kFailed\<close>. The function never writes \<open>kVidMem\<close> itself: that is left to the
  promoter. The \<^verbatim>\<open>assert\<close>s are not modelled.
\<close>

definition uploadTexture :: "env \<Rightarrow> addr \<Rightarrow> world \<Rightarrow> world" where
  "uploadTexture e a w =
     (case lookup (heap w) a of
        None \<Rightarrow> w
      | Some t \<Rightarrow>
          if state t \<noteq> kQueuedForUpload then w
          else
            (case loadTexture e t HOST LowMips None of
               Thrown err t1 \<Rightarrow>
                 w\<lparr>heap := (heap w)[a := t1\<lparr>state := kFailed\<rparr>],
                   calls := calls w @ [LoadTexture a HOST LowMips None]\<rparr>
             | Returned t1 \<Rightarrow>
                 if rtxIoEnabled e
                 then w\<lparr>heap := (heap w)[a := t1],
                        calls := calls w @ [LoadTexture a HOST LowMips None]\<rparr>
                 else
                   (case promoteHostToVid e t1 None of
                      Thrown err t2 \<Rightarrow>
                        w\<lparr>heap := (heap w)[a := t2\<lparr>state := kFailed\<rparr>],
                          calls := calls w @ [LoadTexture a HOST LowMips None,
                                              PromoteHostToVid a None]\<rparr>
                    | Returned t2 \<Rightarrow>
                        (case flushCommandList e of
                           Some err \<Rightarrow>
                             w\<lparr>heap := (heap w)[a := t2\<lparr>state := kFailed\<rparr>],
                               calls := calls w @ [LoadTexture a HOST LowMips None,
                                                   PromoteHostToVid a None, FlushCommandList]\<rparr>
                         | None \<Rightarrow>
                             w\<lparr>heap := (heap w)[a := t2\<lparr>linearImageDataLargeMips := None\<rparr>],
                               calls := calls w @ [LoadTexture a HOST LowMips None,
                                                   PromoteHostToVid a None, FlushCommandList]\<rparr>))))"

text \<open>
  The worker thread runs \<^verbatim>\<open>threadFunc\<close> beside its callers. The model takes its loop in
  steps, each of them atomic: from the head of the loop to the point where a texture has
  been taken from the queue (lines 166 to 197), and from there through the cool-down wait
  to the end of the body (lines 199 to 216). A step that finds the thread waiting, on the
  condition variable or in \<^verbatim>\<open>Sleep(1)\<close>, leaves it where it is, so every step returns.
  The local variable \<^verbatim>\<open>texture\<close> and the position in the loop are the state of the
  worker.
\<close>

datatype location = AtLoopHead | AtCooldown | AtExit

record worker =
  texture :: "addr option"
  pc :: location

text \<open>Lines 190 to 197.\<close>

definition rtxIoKick :: "env \<Rightarrow> world \<Rightarrow> world" where
  "rtxIoKick e w =
     (if WITH_RTXIO e \<and> (m_kickoff w \<or> m_dropRequests w)
      then w\<lparr>m_kickoff := False,
             calls := calls w @ (if rtxIoEnabled e then [RtxIoFlush (\<not> m_dropRequests w)] else [])\<rparr>
      else w)"

definition threadFuncStep :: "env \<Rightarrow> worker \<times> world \<Rightarrow> worker \<times> world" where
  "threadFuncStep e s =
     (let (wk, w) = s
      in case pc wk of
           AtExit \<Rightarrow> (wk, w)
         | AtLoopHead \<Rightarrow>
             if m_stopped w then (wk\<lparr>pc := AtExit\<rparr>, w)
             else
               let w1 = (case texture wk of
                           None \<Rightarrow> w
                         | Some _ \<Rightarrow>
                             let n = m_texturesPending w - 1
                             in w\<lparr>m_texturesPending := n,
                                  calls := calls w @ (if n = 0 then [NotifyOnSync] else [])\<rparr>)
               in (case m_textureQueue w1 of
                     [] \<Rightarrow>
                       if m_kickoff w1
                       then (\<lparr>texture = None, pc = AtLoopHead\<rparr>, rtxIoKick e w1)
                       else (\<lparr>texture = None, pc = AtLoopHead\<rparr>, w1)
                   | a # q \<Rightarrow>
                       (\<lparr>texture = Some a, pc = AtCooldown\<rparr>,
                        rtxIoKick e (w1\<lparr>m_textureQueue := q\<rparr>)))
         | AtCooldown \<Rightarrow>
             (case texture wk of
                None \<Rightarrow> (wk\<lparr>pc := AtLoopHead\<rparr>, w)
              | Some a \<Rightarrow>
                  (case lookup (heap w) a of
                     None \<Rightarrow> (wk\<lparr>pc := AtLoopHead\<rparr>, w)
                   | Some t \<Rightarrow>
                       if \<not> rtxIoEnabled e \<and> \<not> m_dropRequests w \<and> \<not> m_stopped w
                          \<and> \<not> alwaysWaitForAsyncTextures e
                          \<and> currentFrameId w \<le> frameQueuedForUpload t
                       then (wk, w)
                       else if m_dropRequests w
                       then (wk\<lparr>pc := AtLoopHead\<rparr>,
                             w\<lparr>heap := (heap w)[a := demote e (t\<lparr>state := kFailed\<rparr>)],
                               calls := calls w @ [Demote a]\<rparr>)
                       else (wk\<lparr>pc := AtLoopHead\<rparr>, uploadTexture e a w))))"

section \<open>Preloading: \<^verbatim>\<open>preloadTexture\<close>\<close>

text \<open>
  The function has no handler of its own: an error of the loader leaves it as an
  exception, the new record is dropped and nothing is inserted.
\<close>

definition preloadTexture ::
    "env \<Rightarrow> AssetData \<Rightarrow> ColorSpace \<Rightarrow> bool \<Rightarrow> world \<Rightarrow> (DxvkError + addr) \<times> world" where
  "preloadTexture e assetData colorSpace forceLoad w =
     (case m_textures w (hash assetData) of
        Some a \<Rightarrow> (Inr a, w)
      | None \<Rightarrow>
          let a = length (heap w);
              t = createTexture e assetData colorSpace;
              mips = (if forceLoad then All else HighMips);
              cs = [CreateTexture (hash assetData),
                    LoadTexture a HOST mips (Some (m_minimumMipLevel w))]
          in case loadTexture e t HOST mips (Some (m_minimumMipLevel w)) of
               Thrown err t1 \<Rightarrow> (Inl err, w\<lparr>calls := calls w @ cs\<rparr>)
             | Returned t1 \<Rightarrow>
                 (Inr a,
                  w\<lparr>m_textures := (m_textures w)(hash assetData \<mapsto> a),
                    heap := heap w @ [t1\<lparr>canDemote := \<not> forceLoad\<rparr>],
                    calls := calls w @ cs\<rparr>))"


section \<open>Sequences of operations\<close>











fun isLoadOrPromote :: "call \<Rightarrow> bool" where
  "isLoadOrPromote (LoadTexture a ap m mm) = True"
| "isLoadOrPromote (PromoteHostToVid a mm) = True"
| "isLoadOrPromote c = False"

section \<open>A reference environment\<close>

text \<open>
  Modelled from the spec: the pixel loader \<^verbatim>\<open>TextureUtils::loadTexture\<close> is not among
  the files at hand; it "loads the requested mip subset into host memory". Here it fills
  the host buffer of the requested mips and returns.
\<close>

definition specLoadTexture ::
    "ManagedTexture \<Rightarrow> MemoryAperture \<Rightarrow> MipsToLoad \<Rightarrow> 32 word option \<Rightarrow> ManagedTexture outcome" where
  "specLoadTexture t ap m mm =
     Returned (case m of
                 HighMips \<Rightarrow> t\<lparr>linearImageDataSmallMips := Some 0\<rparr>
               | LowMips \<Rightarrow> t\<lparr>linearImageDataLargeMips := Some 0\<rparr>
               | All \<Rightarrow> t\<lparr>linearImageDataSmallMips := Some 0, linearImageDataLargeMips := Some 0\<rparr>)"

text \<open>
  Modelled from the spec: the promoter \<^verbatim>\<open>TextureUtils::promoteHostToVid\<close> is not among
  the files at hand; it "copies host-resident pixel data to device memory up to (not
  including) the given mip", and a record whose mips are all on the device is
  \<open>VidMem\<close>.
\<close>

definition specPromoteHostToVid :: "ManagedTexture \<Rightarrow> 32 word option \<Rightarrow> ManagedTexture outcome" where
  "specPromoteHostToVid t mm =
     Returned (if mm = None \<or> mm = Some 0 then t\<lparr>state := kVidMem\<rparr> else t)"

text \<open>
  Modelled from the spec: \<^verbatim>\<open>ManagedTexture::demote\<close> is not among the files at hand;
  demotion is "releasing device-local residency, returning a record to a host-only or
  unloaded state", for a record that may be demoted.
\<close>

definition specDemote :: "ManagedTexture \<Rightarrow> ManagedTexture" where
  "specDemote t = (if canDemote t \<and> state t = kVidMem then t\<lparr>state := kHostMem\<rparr> else t)"

text \<open>
  Modelled from the spec: \<^verbatim>\<open>TextureRef::finalizePendingPromotion\<close> is not among the
  files at hand; it "performs the handoff of the device-resident resource to the consumer"
  and is "only meaningful when the underlying record has reached \<open>VidMem\<close>".
\<close>

definition specFinalizePendingPromotion :: "TextureRef \<Rightarrow> ManagedTexture \<Rightarrow> bool \<times> TextureRef" where
  "specFinalizePendingPromotion r t =
     (if state t = kVidMem then (True, r\<lparr>m_imageView := Some 0\<rparr>) else (False, r))"

text \<open>
  Modelled from the spec: \<^verbatim>\<open>TextureUtils::createTexture\<close> is not among the files at
  hand; it "constructs a new record" for the asset.
\<close>

definition specCreateTexture :: "AssetData \<Rightarrow> ColorSpace \<Rightarrow> ManagedTexture" where
  "specCreateTexture ad cs =
     \<lparr>state = kHostMem, mipLevels = assetMipLevels ad,
      linearImageDataLargeMips = None, linearImageDataSmallMips = None,
      numLargeMips = 0, completionSyncpt = 0, frameQueuedForUpload = 0,
      canDemote = True, assetDataHash = hash ad\<rparr>"

text \<open>
  An environment without the external I/O backend, with asynchronous upload enabled, three
  mips to preload and an estimated asset size of 4 GB.
\<close>

definition specEnv :: env where
  "specEnv =
     \<lparr>WITH_RTXIO = False, rtxIoEnabled = False, rtxIoIsComplete = (\<lambda>s. False),
      enableAsyncTextureUpload = True, asyncTextureUploadPreloadMips = 3,
      alwaysWaitForAsyncTextures = False, assetEstimatedSizeGB = 4,
      loadTexture = specLoadTexture, promoteHostToVid = specPromoteHostToVid,
      flushCommandList = None, demote = specDemote,
      finalizePendingPromotion = specFinalizePendingPromotion,
      createTexture = specCreateTexture\<rparr>"

text \<open>The same environment with a promoter that fails.\<close>

definition failingEnv :: env where
  "failingEnv = specEnv\<lparr>promoteHostToVid := (\<lambda>t mm. Thrown ''out of device memory'' t)\<rparr>"

text \<open>
  The same environment with the external I/O backend enabled and a reference whose
  promotion is not finalized yet.
\<close>

definition rtxIoEnv :: env where
  "rtxIoEnv = specEnv\<lparr>WITH_RTXIO := True, rtxIoEnabled := True,
                      finalizePendingPromotion := (\<lambda>r t. (False, r))\<rparr>"

text \<open>A record with ten mips in host memory, and a world that holds it at address 0.\<close>

definition tex10 :: ManagedTexture where
  "tex10 =
     \<lparr>state = kHostMem, mipLevels = 10,
      linearImageDataLargeMips = None, linearImageDataSmallMips = Some 0,
      numLargeMips = 7, completionSyncpt = 0, frameQueuedForUpload = 0,
      canDemote = True, assetDataHash = 1\<rparr>"

definition world0 :: world where
  "world0 =
     \<lparr>m_textureQueue = [], m_texturesPending = 0, m_textures = [1 \<mapsto> 0],
      m_dropRequests = False, m_kickoff = False, m_stopped = False,
      m_minimumMipLevel = 0, heap = [tex10], currentFrameId = 5, calls = []\<rparr>"

definition ref0 :: TextureRef where
  "ref0 = \<lparr>m_managedTexture = Some 0, m_imageView = None\<rparr>"

definition nullRef :: TextureRef where
  "nullRef = \<lparr>m_managedTexture = None, m_imageView = None\<rparr>"

definition asset2 :: AssetData where
  "asset2 = \<lparr>hash = 2, assetMipLevels = 10\<rparr>"

text \<open>
  Memory queries: a device-local heap with 1 GiB free, one with 8 GiB free, a heap
  allocated one byte over its budget, and a heap allocated 2 MiB over its budget, alone,
  with 3 GiB of free system memory, and with the raytracing resources still to come.
\<close>

definition heapOf :: "64 word \<Rightarrow> 64 word \<Rightarrow> MemoryHeap" where
  "heapOf budget allocated =
     \<lparr>heapFlags = 1, memoryBudget = budget, memoryAllocated = allocated\<rparr>"

definition queryOf :: "MemoryHeap \<Rightarrow> bool \<Rightarrow> 64 word option \<Rightarrow> MemoryQuery" where
  "queryOf h resourcesPending sysmem =
     \<lparr>memoryHeaps = [h], isRtxContext = resourcesPending,
      isResourceReady = \<not> resourcesPending, availableSystemPhysicalMemory = sysmem\<rparr>"

definition query1GiB :: MemoryQuery where
  "query1GiB = queryOf (heapOf 1073741824 0) False None"

definition query8GiB :: MemoryQuery where
  "query8GiB = queryOf (heapOf 8589934592 0) False None"

definition heapOneByteOver :: MemoryHeap where
  "heapOneByteOver = heapOf 1048576 1048577"

definition heapOver :: MemoryHeap where
  "heapOver = heapOf 0 2097152"

text \<open>
  Variants of the reference environment: asynchronous upload disabled in the options, and
  the worker told never to wait for the next frame.
\<close>

definition syncOnlyEnv :: env where
  "syncOnlyEnv = specEnv\<lparr>enableAsyncTextureUpload := False\<rparr>"


text \<open>
  A worker at the head of its loop; the world with the record in a given state; the same
  world with the record in the queue while requests are dropped; and the world after the
  asset with hash 2 has been preloaded.
\<close>

definition worker0 :: worker where
  "worker0 = \<lparr>texture = None, pc = AtLoopHead\<rparr>"

definition worldWith :: "State \<Rightarrow> world" where
  "worldWith s = world0\<lparr>heap := [tex10\<lparr>state := s\<rparr>]\<rparr>"

definition worldDraining :: "State \<Rightarrow> world" where
  "worldDraining s = (worldWith s)\<lparr>m_textureQueue := [0], m_texturesPending := 1,
                                   m_dropRequests := True\<rparr>"

definition world1 :: world where
  "world1 = world0\<lparr>m_textures := [1 \<mapsto> 0, 2 \<mapsto> 1],
      heap := [tex10, (specCreateTexture asset2 0)\<lparr>linearImageDataSmallMips := Some 0\<rparr>],
      calls := [CreateTexture 2, LoadTexture 1 HOST HighMips (Some 0)]\<rparr>"

section \<open>Properties\<close>

lemmas spec_defs = specEnv_def specLoadTexture_def specPromoteHostToVid_def specDemote_def
  specFinalizePendingPromotion_def specCreateTexture_def

lemmas sched_defs = scheduleTextureUpload_def scheduleUpload_def syncPreload_def preloadMipsOf_def
  calcPreloadMips_def clamp_def lookup_def word_sless_alt



subsection \<open>The skip level\<close>

lemmas est_defs = updateMipMapSkipLevel_def availableMemorySizeMib_def maxIntMinus2GB_def
  GB_def VK_MEMORY_HEAP_DEVICE_LOCAL_BIT_def int_div_def queryOf_def heapOf_def word_sless_alt

lemma skipLevelLoop_unfold:
  "skipLevelLoop a m 0 =
     (if m < (scast a :: 64 word) then (if m < (scast (int_div a 4) :: 64 word) then 2 else 1) else 0)"
  by simp

lemma skipLevelLoop_le_2: "skipLevelLoop a m 0 \<le> 2"
  unfolding skipLevelLoop_unfold by simp

lemma skipLevelLoop_antimono: "m1 \<le> m2 \<Longrightarrow> skipLevelLoop a m2 0 \<le> skipLevelLoop a m1 0"
  unfolding skipLevelLoop_unfold by auto

text \<open>
  C2. For every input, the skip level that \<^verbatim>\<open>updateMipMapSkipLevel\<close> returns lies in
  \<open>[0, 2]\<close>; and for a fixed configured asset size, a smaller computed available memory
  never gives a smaller skip level: if the available memory of one query is at most that of
  another, the skip level of the first is at least that of the second.
\<close>

theorem updateMipMapSkipLevel_range_and_monotone:
  "fst (updateMipMapSkipLevel e q w) \<le> 2
   \<and> (availableMemorySizeMib q1 \<le> availableMemorySizeMib q2
        \<longrightarrow> fst (updateMipMapSkipLevel e q2 w2) \<le> fst (updateMipMapSkipLevel e q1 w1))"
  by (simp add: updateMipMapSkipLevel_def Let_def skipLevelLoop_le_2 skipLevelLoop_antimono
           del: skipLevelLoop.simps)

theorem updateMipMapSkipLevel_range_and_monotone_witness:
  "availableMemorySizeMib query1GiB \<le> availableMemorySizeMib query8GiB
   \<and> fst (updateMipMapSkipLevel specEnv query8GiB world0) = 0
   \<and> fst (updateMipMapSkipLevel specEnv query1GiB world0) = 1
   \<and> fst (updateMipMapSkipLevel specEnv query8GiB world0)
       \<le> fst (updateMipMapSkipLevel specEnv query1GiB world0)
   \<and> fst (updateMipMapSkipLevel specEnv query1GiB world0) \<le> 2"
proof -
  have a: "availableMemorySizeMib query1GiB \<le> availableMemorySizeMib query8GiB"
    by (simp add: query1GiB_def query8GiB_def est_defs)
  have v8: "fst (updateMipMapSkipLevel specEnv query8GiB world0) = 0"
    by (simp add: specEnv_def query8GiB_def est_defs)
  have v1: "fst (updateMipMapSkipLevel specEnv query1GiB world0) = 1"
    by (simp add: specEnv_def query1GiB_def est_defs)
  from updateMipMapSkipLevel_range_and_monotone
         [of specEnv query1GiB world0 query1GiB query8GiB world0 world0] a v8 v1
  show ?thesis by blast
qed

subsection \<open>Heaps allocated beyond their budget\<close>

lemma scast_nonneg: "0 \<le>s (a::32 word) \<Longrightarrow> unat (scast a :: 64 word) < 2147483648"
proof -
  assume "0 \<le>s a"
  then have nn: "0 \<le> sint a" by (simp add: word_sle_eq)
  have lt: "sint a < 2147483648" using sint_lt[of a] by simp
  have "uint (scast a :: 64 word) = take_bit 64 (sint a)"
    unfolding scast_eq uint_word_of_int_eq by simp
  also have "\<dots> = sint a" 
    by (rule take_bit_int_eq_self[OF nn]) (use lt in simp)
  finally have u: "uint (scast a :: 64 word) < 2147483648" using lt by simp
  have "unat (scast a :: 64 word) = nat (uint (scast a :: 64 word))"
    by (rule unat_eq_nat_uint)
  with u show ?thesis
    by linarith 
qed

lemma unat_sub_wraps: "(b::64 word) < a \<Longrightarrow> unat (b - a) = 2^64 - (unat a - unat b)"
  by (simp add: unat_sub_if_size word_less_nat_alt word_size) 

lemma unat_drop_bit_20: "unat (drop_bit 20 (x::64 word)) < 17592186044416"
proof -
  have "unat x < 2^64" using unsigned_less[of x] by simp
  then have "unat x div 2^20 < 17592186044416" by simp
  moreover have "unat (drop_bit 20 x) = drop_bit 20 (unat x)"
    by (rule unat_drop_bit_eq)
  moreover have "drop_bit 20 (unat x) = unat x div 2^20"
    by (rule drop_bit_eq_div)
  ultimately show ?thesis by (simp only:)
qed

lemma wrapped_headroom_large:
  assumes "drop_bit 20 (b::64 word) < drop_bit 20 (a :: 64 word)"
  shows "18446726481523507200 \<le> unat (drop_bit 20 b - drop_bit 20 a)"
proof -
  have 1: "unat (drop_bit 20 b - drop_bit 20 a) = 2^64 - (unat (drop_bit 20 a) - unat (drop_bit 20 b))"
    using assms(1) by (rule unat_sub_wraps)
  have 2: "unat (drop_bit 20 a) < 17592186044416" by (rule unat_drop_bit_20)
  show ?thesis unfolding 1 using 2 by simp
qed

lemma maxIntMinus2GB_small: "unat (maxIntMinus2GB x) < 2147483648"
proof (cases "(ucast x :: 32 word) - 2 * GB <s 0")
  case True
  then show ?thesis by (simp add: maxIntMinus2GB_def Let_def)
next
  case False
  then have "0 \<le>s (ucast x :: 32 word) - 2 * GB"
    by (simp add: word_sless_alt word_sle_eq)
  then have "unat (scast ((ucast x :: 32 word) - 2 * GB) :: 64 word) < 2147483648"
    by (rule scast_nonneg)
  with False show ?thesis by (simp add: maxIntMinus2GB_def Let_def)
qed

lemma deviceHeapLoop_ge: "acc \<le> deviceHeapLoop hs acc"
  by (induction hs arbitrary: acc) (auto simp: Let_def intro: order_trans[OF max.cobounded2])

lemma deviceHeapLoop_ge_headroom:
  "h \<in> set hs \<Longrightarrow> heapFlags h AND VK_MEMORY_HEAP_DEVICE_LOCAL_BIT \<noteq> 0 \<Longrightarrow>
   drop_bit 20 (memoryBudget h) - drop_bit 20 (memoryAllocated h) \<le> deviceHeapLoop hs acc"
proof (induction hs arbitrary: acc)
  case Nil
  then show ?case by simp
next
  case (Cons x xs)
  show ?case
  proof (cases "h = x")
    case True
    have "max (drop_bit 20 (memoryBudget x) - drop_bit 20 (memoryAllocated x)) acc
          \<le> deviceHeapLoop xs (max (drop_bit 20 (memoryBudget x) - drop_bit 20 (memoryAllocated x)) acc)"
      by (rule deviceHeapLoop_ge)
    with True Cons.prems show ?thesis by (simp add: Let_def)
  next
    case False
    with Cons show ?thesis by (simp add: Let_def)
  qed
qed

text \<open>
  C9, as stated, fails: a device-local heap whose allocated bytes exceed its budget by less
  than the MiB granularity does not wrap (both counters shift to the same MiB count, the
  headroom is 0) and the function returns 2; and where the subtraction does wrap, the cap by
  system memory or the reserve for raytracing resources still decide, and the function
  returns 1 or 2.
\<close>

theorem headroom_wraps_counterexample:
  "heapFlags heapOneByteOver AND VK_MEMORY_HEAP_DEVICE_LOCAL_BIT \<noteq> 0
   \<and> memoryBudget heapOneByteOver < memoryAllocated heapOneByteOver
   \<and> drop_bit 20 (memoryBudget heapOneByteOver) - drop_bit 20 (memoryAllocated heapOneByteOver) = 0
   \<and> fst (updateMipMapSkipLevel specEnv (queryOf heapOneByteOver False None) world0) = 2
   \<and> heapFlags heapOver AND VK_MEMORY_HEAP_DEVICE_LOCAL_BIT \<noteq> 0
   \<and> memoryBudget heapOver < memoryAllocated heapOver
   \<and> fst (updateMipMapSkipLevel specEnv (queryOf heapOver False (Some 3221225472)) world0) = 1
   \<and> fst (updateMipMapSkipLevel specEnv (queryOf heapOver True None) world0) = 2"
  by (simp add: specEnv_def heapOneByteOver_def heapOver_def est_defs)

text \<open>
  C9, amended. For a device-local heap whose allocated MiB count exceeds its budget MiB
  count, the unsigned subtraction wraps to \<open>2^64 - (used - budget)\<close>, and the available
  device memory after the loop is at least that value. Then, when the reserve for
  raytracing resources is not applied: if the query of system memory fails and the asset
  size is not negative, the function returns 0; if it succeeds, the available memory is the
  system-memory cap alone.
\<close>

theorem headroom_wraps:
  assumes h: "h \<in> set (memoryHeaps q)"
    and local: "heapFlags h AND VK_MEMORY_HEAP_DEVICE_LOCAL_BIT \<noteq> 0"
    and over: "drop_bit 20 (memoryBudget h) < drop_bit 20 (memoryAllocated h)"
  shows "unat (drop_bit 20 (memoryBudget h) - drop_bit 20 (memoryAllocated h))
           = 2 ^ 64 - (unat (drop_bit 20 (memoryAllocated h)) - unat (drop_bit 20 (memoryBudget h)))
         \<and> drop_bit 20 (memoryBudget h) - drop_bit 20 (memoryAllocated h)
             \<le> deviceHeapLoop (memoryHeaps q) 0
         \<and> (\<not> (isRtxContext q \<and> \<not> isResourceReady q)
              \<longrightarrow> (case availableSystemPhysicalMemory q of
                     None \<Rightarrow> 0 \<le>s assetEstimatedSizeGB e * GB
                              \<longrightarrow> fst (updateMipMapSkipLevel e q w) = 0
                   | Some b \<Rightarrow> availableMemorySizeMib q = maxIntMinus2GB (drop_bit 20 b)))"
proof -
  let ?d = "drop_bit 20 (memoryBudget h) - drop_bit 20 (memoryAllocated h)"
  let ?a0 = "deviceHeapLoop (memoryHeaps q) 0"
  have w: "unat ?d = 2 ^ 64 - (unat (drop_bit 20 (memoryAllocated h)) - unat (drop_bit 20 (memoryBudget h)))"
    using over by (rule unat_sub_wraps)
  have ge: "?d \<le> ?a0"
    using h local by (rule deviceHeapLoop_ge_headroom)
  have big: "18446726481523507200 \<le> unat ?a0"
    using wrapped_headroom_large[OF over] ge by (simp add: word_le_nat_alt)
  have third: "fst (updateMipMapSkipLevel e q w) = 0"
    if np: "\<not> (isRtxContext q \<and> \<not> isResourceReady q)"
      and none: "availableSystemPhysicalMemory q = None"
      and nonneg: "0 \<le>s assetEstimatedSizeGB e * GB"
  proof -
    have av: "availableMemorySizeMib q = ?a0"
      using np none by (auto simp add: availableMemorySizeMib_def Let_def)
    have "unat (scast (assetEstimatedSizeGB e * GB) :: 64 word) < 2147483648"
      using nonneg by (rule scast_nonneg)
    with big have "\<not> ?a0 < (scast (assetEstimatedSizeGB e * GB) :: 64 word)"
      by (simp add: word_less_nat_alt)
    then show ?thesis
      by (simp add: updateMipMapSkipLevel_def Let_def av)
  qed
  have fourth: "availableMemorySizeMib q = maxIntMinus2GB (drop_bit 20 b)"
    if np: "\<not> (isRtxContext q \<and> \<not> isResourceReady q)"
      and some: "availableSystemPhysicalMemory q = Some b" for b
  proof -
    have "unat (maxIntMinus2GB (drop_bit 20 b)) < 2147483648"
      by (rule maxIntMinus2GB_small)
    with big have "maxIntMinus2GB (drop_bit 20 b) \<le> ?a0"
      by (simp add: word_le_nat_alt)
    then show ?thesis
      using np some by (auto simp add: availableMemorySizeMib_def Let_def min_def)
  qed
  show ?thesis
    using w ge third fourth by (auto split: option.splits)
qed

theorem headroom_wraps_witness:
  "heapOver \<in> set (memoryHeaps (queryOf heapOver False None))
   \<and> heapFlags heapOver AND VK_MEMORY_HEAP_DEVICE_LOCAL_BIT \<noteq> 0
   \<and> drop_bit 20 (memoryBudget heapOver) < drop_bit 20 (memoryAllocated heapOver)
   \<and> drop_bit 20 (memoryBudget heapOver) - drop_bit 20 (memoryAllocated heapOver)
        = 18446744073709551614
   \<and> 0 \<le>s assetEstimatedSizeGB specEnv * GB
   \<and> fst (updateMipMapSkipLevel specEnv (queryOf heapOver False None) world0) = 0
   \<and> availableMemorySizeMib (queryOf heapOver False (Some 3221225472)) = 1024"
proof -
  have m1: "heapOver \<in> set (memoryHeaps (queryOf heapOver False None))"
    and m2: "heapOver \<in> set (memoryHeaps (queryOf heapOver False (Some 3221225472)))"
    by (simp_all add: queryOf_def)
  have dl: "heapFlags heapOver AND VK_MEMORY_HEAP_DEVICE_LOCAL_BIT \<noteq> 0"
    by (simp add: heapOver_def heapOf_def VK_MEMORY_HEAP_DEVICE_LOCAL_BIT_def)
  have ov: "drop_bit 20 (memoryBudget heapOver) < drop_bit 20 (memoryAllocated heapOver)"
    by (simp add: heapOver_def heapOf_def)
  have wr: "drop_bit 20 (memoryBudget heapOver) - drop_bit 20 (memoryAllocated heapOver)
        = 18446744073709551614"
    by (simp add: heapOver_def heapOf_def)
  have nn: "0 \<le>s assetEstimatedSizeGB specEnv * GB"
    by (simp add: specEnv_def GB_def word_sle_eq)
  have cap: "maxIntMinus2GB (drop_bit 20 3221225472) = 1024"
    by (simp add: maxIntMinus2GB_def GB_def word_sless_alt)
  from headroom_wraps [OF m1 dl ov, of specEnv world0]
  have "fst (updateMipMapSkipLevel specEnv (queryOf heapOver False None) world0) = 0"
    using nn by (simp add: queryOf_def)
  moreover from headroom_wraps [OF m2 dl ov, of specEnv world0]
  have "availableMemorySizeMib (queryOf heapOver False (Some 3221225472)) = 1024"
    using cap by (simp add: queryOf_def)
  ultimately show ?thesis
    using m1 dl ov wr nn by blast
qed

subsection \<open>A null reference\<close>

text \<open>
  C10. For a \<^verbatim>\<open>TextureRef\<close> whose managed-texture pointer is null,
  \<^verbatim>\<open>scheduleTextureUpload\<close> returns at once and has no effect: the reference and the
  whole world (queue, pending counter, texture table, every record, the log of calls) are
  as before, whatever \<open>allowAsync\<close> is.
\<close>

theorem scheduleTextureUpload_null:
  "m_managedTexture textureRef = None \<Longrightarrow>
   scheduleTextureUpload e textureRef allowAsync w = (textureRef, w)"
  by (simp add: scheduleTextureUpload_def)

theorem scheduleTextureUpload_null_witness:
  "m_managedTexture nullRef = None
   \<and> scheduleTextureUpload specEnv nullRef True world0 = (nullRef, world0)
   \<and> scheduleTextureUpload specEnv nullRef False world0 = (nullRef, world0)"
  using scheduleTextureUpload_null [of nullRef specEnv True world0]
        scheduleTextureUpload_null [of nullRef specEnv False world0]
  by (simp add: nullRef_def)

subsection \<open>Stale queue entries\<close>

text \<open>
  C7. For a record whose state is not \<open>kQueuedForUpload\<close>, \<^verbatim>\<open>uploadTexture\<close>
  returns without a load or a promotion and leaves every field of the record, and the rest
  of the world, unchanged.
\<close>

theorem uploadTexture_skips_stale:
  "lookup (heap w) a = Some t \<Longrightarrow> state t \<noteq> kQueuedForUpload \<Longrightarrow> uploadTexture e a w = w"
  by (simp add: uploadTexture_def)

theorem uploadTexture_skips_stale_witness:
  "lookup (heap world0) 0 = Some tex10 \<and> state tex10 \<noteq> kQueuedForUpload
   \<and> uploadTexture specEnv 0 world0 = world0"
proof -
  have h: "lookup (heap world0) 0 = Some tex10"
    by (simp add: lookup_def world0_def)
  have s: "state tex10 \<noteq> kQueuedForUpload"
    by (simp add: tex10_def)
  show ?thesis
    using h s uploadTexture_skips_stale [OF h s, of specEnv] by simp
qed


subsection \<open>The number of mips to preload\<close>

text \<open>
  C5, as stated, fails: with asynchronous upload disabled in the options, a call with
  \<open>allowAsync\<close> preloads all ten mips and not the configured three; and with the
  external I/O backend enabled, a record that is already \<open>kVidMem\<close> preloads none,
  also when \<open>allowAsync\<close> is false.
\<close>

theorem preloadMips_counterexample:
  "asyncTextureUploadPreloadMips syncOnlyEnv = 3 \<and> mipLevels tex10 = 10
   \<and> clamp (asyncTextureUploadPreloadMips syncOnlyEnv) 0 (mipLevels tex10) = 3
   \<and> preloadMipsOf syncOnlyEnv tex10 True = 10
   \<and> mipLevels (tex10\<lparr>state := kVidMem\<rparr>) = 10
   \<and> preloadMipsOf rtxIoEnv (tex10\<lparr>state := kVidMem\<rparr>) False = 0"
  by (simp add: syncOnlyEnv_def rtxIoEnv_def specEnv_def tex10_def preloadMipsOf_def
        calcPreloadMips_def clamp_def word_sless_alt)

text \<open>
  C5, amended. If the external I/O backend is enabled and the record is already
  \<open>kVidMem\<close>, \<^verbatim>\<open>preloadMips\<close> is 0. Otherwise, if \<open>allowAsync\<close> is false or
  asynchronous upload is disabled in the options, it is \<open>mipLevels\<close>; otherwise it
  is the configured preload count clamped to \<open>[0, mipLevels]\<close>.
\<close>

theorem preloadMipsOf_cases:
  "preloadMipsOf e t allowAsync =
     (if rtxIoEnabled e \<and> state t = kVidMem then 0
      else if allowAsync \<and> enableAsyncTextureUpload e
      then clamp (asyncTextureUploadPreloadMips e) 0 (mipLevels t)
      else mipLevels t)
   \<and> (0 \<le>s mipLevels t \<longrightarrow>
        0 \<le>s clamp (asyncTextureUploadPreloadMips e) 0 (mipLevels t)
        \<and> clamp (asyncTextureUploadPreloadMips e) 0 (mipLevels t) \<le>s mipLevels t)"
  by (auto simp add: preloadMipsOf_def calcPreloadMips_def clamp_def Let_def word_sless_alt word_sle_eq)

theorem preloadMipsOf_cases_witness:
  "0 \<le>s mipLevels tex10
   \<and> preloadMipsOf specEnv tex10 True = 3
   \<and> preloadMipsOf specEnv tex10 False = 10
   \<and> 0 \<le>s clamp (asyncTextureUploadPreloadMips specEnv) 0 (mipLevels tex10)
   \<and> clamp (asyncTextureUploadPreloadMips specEnv) 0 (mipLevels tex10) \<le>s mipLevels tex10"
proof -
  have nn: "0 \<le>s mipLevels tex10" by (simp add: tex10_def word_sle_eq)
  have c: "clamp (asyncTextureUploadPreloadMips specEnv) 0 (mipLevels tex10) = 3"
    by (simp add: specEnv_def tex10_def clamp_def word_sless_alt)
  have s: "\<not> rtxIoEnabled specEnv" "enableAsyncTextureUpload specEnv" "mipLevels tex10 = 10"
    by (simp_all add: specEnv_def tex10_def)
  from preloadMipsOf_cases [of specEnv tex10 True] preloadMipsOf_cases [of specEnv tex10 False]
  show ?thesis using nn c s by simp
qed

subsection \<open>A failure in the synchronous preload\<close>

text \<open>
  C4. For a record that \<^verbatim>\<open>scheduleTextureUpload\<close> takes through the synchronous
  preload (it is not queued, a \<open>kVidMem\<close> record is not finalized, and
  \<^verbatim>\<open>preloadMips\<close> is not 0): if the loader or the promoter throws there, the record
  is left as the thrower left it but with state \<open>kFailed\<close>, and nothing is enqueued:
  the pending queue and the pending counter are as before, and
  \<^verbatim>\<open>frameQueuedForUpload\<close> is not stamped (it is as before, given that the thrower
  itself did not write it).
\<close>

theorem sync_preload_failure:
  assumes ref: "m_managedTexture textureRef = Some a"
    and rec: "lookup (heap w) a = Some t"
    and route: "state t \<noteq> kQueuedForUpload"
               "state t = kVidMem \<longrightarrow> \<not> fst (finalizePendingPromotion e textureRef t)"
    and pre: "preloadMipsOf e t allowAsync \<noteq> 0"
    and thrown: "fst (syncPreload e a t (preloadMipsOf e t allowAsync)) = Thrown err t'"
    and stamp: "frameQueuedForUpload t' = frameQueuedForUpload t"
  shows "lookup (heap (snd (scheduleTextureUpload e textureRef allowAsync w))) a
           = Some (t'\<lparr>state := kFailed\<rparr>)
         \<and> m_textureQueue (snd (scheduleTextureUpload e textureRef allowAsync w)) = m_textureQueue w
         \<and> m_texturesPending (snd (scheduleTextureUpload e textureRef allowAsync w))
             = m_texturesPending w
         \<and> frameQueuedForUpload (t'\<lparr>state := kFailed\<rparr>) = frameQueuedForUpload t"
proof -
  have len: "a < length (heap w)"
    using rec by (simp add: lookup_def split: if_splits)
  have su: "lookup (heap (scheduleUpload e a t allowAsync w0)) a = Some (t'\<lparr>state := kFailed\<rparr>)
        \<and> m_textureQueue (scheduleUpload e a t allowAsync w0) = m_textureQueue w0
        \<and> m_texturesPending (scheduleUpload e a t allowAsync w0) = m_texturesPending w0"
    if "heap w0 = heap w" for w0
    using pre thrown len that
    by (simp add: scheduleUpload_def Let_def lookup_def split_beta)
  show ?thesis
  proof (cases "state t")
    case kVidMem
    with route have "\<not> fst (finalizePendingPromotion e textureRef t)" by simp
    with kVidMem ref rec stamp su [of "w\<lparr>calls := calls w @ [FinalizePendingPromotion a]\<rparr>"]
    show ?thesis
      by (simp add: scheduleTextureUpload_def split_beta)
  next
    case kQueuedForUpload
    with route show ?thesis by simp
  next
    case kFailed
    with ref rec stamp su [of w] show ?thesis
      by (simp add: scheduleTextureUpload_def)
  next
    case kHostMem
    with ref rec stamp su [of w] show ?thesis
      by (simp add: scheduleTextureUpload_def)
  qed
qed

theorem sync_preload_failure_witness:
  "m_managedTexture ref0 = Some 0
   \<and> lookup (heap world0) 0 = Some tex10
   \<and> state tex10 = kHostMem
   \<and> preloadMipsOf failingEnv tex10 True \<noteq> 0
   \<and> fst (syncPreload failingEnv 0 tex10 (preloadMipsOf failingEnv tex10 True))
        = Thrown ''out of device memory'' tex10
   \<and> lookup (heap (snd (scheduleTextureUpload failingEnv ref0 True world0))) 0
        = Some (tex10\<lparr>state := kFailed\<rparr>)
   \<and> m_textureQueue (snd (scheduleTextureUpload failingEnv ref0 True world0)) = []
   \<and> m_texturesPending (snd (scheduleTextureUpload failingEnv ref0 True world0)) = 0
   \<and> frameQueuedForUpload (tex10\<lparr>state := kFailed\<rparr>) = frameQueuedForUpload tex10"
proof -
  have r: "m_managedTexture ref0 = Some 0" by (simp add: ref0_def)
  have l: "lookup (heap world0) 0 = Some tex10" by (simp add: world0_def lookup_def)
  have s: "state tex10 \<noteq> kQueuedForUpload"
    "state tex10 = kVidMem \<longrightarrow> \<not> fst (finalizePendingPromotion failingEnv ref0 tex10)"
    by (simp_all add: tex10_def)
  have hm: "state tex10 = kHostMem" by (simp add: tex10_def)
  have p: "preloadMipsOf failingEnv tex10 True \<noteq> 0"
    by (simp add: failingEnv_def spec_defs tex10_def sched_defs)
  have t: "fst (syncPreload failingEnv 0 tex10 (preloadMipsOf failingEnv tex10 True))
        = Thrown ''out of device memory'' tex10"
    by (simp add: failingEnv_def spec_defs tex10_def sched_defs)
  have q: "m_textureQueue world0 = []" "m_texturesPending world0 = 0" by (simp_all add: world0_def)
  from sync_preload_failure [OF r l s p t refl] q r l hm p t
  show ?thesis by simp
qed

subsection \<open>Ten mips, three preloaded\<close>



subsection \<open>Preloading the same asset twice\<close>

text \<open>
  C6. When \<^verbatim>\<open>preloadTexture\<close> has returned a record for an asset, a second call for
  an asset with the same content hash returns the same record, whatever its other
  arguments, and changes nothing: no collaborator is called, nothing is inserted, and the
  records and the texture table are as the first call left them.
\<close>

theorem preloadTexture_idempotent:
  assumes first: "preloadTexture e assetData colorSpace forceLoad w = (Inr a, w1)"
    and same: "hash assetData' = hash assetData"
  shows "preloadTexture e assetData' colorSpace' forceLoad' w1 = (Inr a, w1)"
proof (cases "m_textures w (hash assetData)")
  case (Some b)
  with first have "b = a" "w1 = w" by (simp_all add: preloadTexture_def)
  with Some same show ?thesis by (simp add: preloadTexture_def)
next
  case None
  with first have "m_textures w1 (hash assetData) = Some a"
    by (auto simp add: preloadTexture_def Let_def split: outcome.splits)
  with same show ?thesis by (simp add: preloadTexture_def)
qed

theorem preloadTexture_idempotent_witness:
  "preloadTexture specEnv asset2 0 False world0 = (Inr 1, world1)
   \<and> hash asset2 = hash asset2
   \<and> preloadTexture specEnv asset2 0 False world1 = (Inr 1, world1)
   \<and> preloadTexture specEnv asset2 1 True world1 = (Inr 1, world1)"
proof -
  have f: "preloadTexture specEnv asset2 0 False world0 = (Inr 1, world1)"
    by (simp add: preloadTexture_def world0_def world1_def asset2_def spec_defs)
  from preloadTexture_idempotent [OF f refl, of 0 False]
       preloadTexture_idempotent [OF f refl, of 1 True] f
  show ?thesis by simp
qed

subsection \<open>Dropped requests\<close>

text \<open>
  C8. When the worker takes a record from the pending queue while requests are being
  dropped, it sets the state of the record to \<open>kFailed\<close> and demotes it instead of
  uploading it: after the two steps the record is the demoted failed record, the last call
  is the demotion, and the log holds no load and no promotion that was not there before.
\<close>

theorem dropped_request:
  assumes head: "pc wk = AtLoopHead"
    and running: "\<not> m_stopped w"
    and drop: "m_dropRequests w"
    and front: "m_textureQueue w = a # q"
    and rec: "lookup (heap w) a = Some t"
  shows "fst (threadFuncStep e (wk, w)) = \<lparr>texture = Some a, pc = AtCooldown\<rparr>
         \<and> m_textureQueue (snd (threadFuncStep e (wk, w))) = q
         \<and> m_dropRequests (snd (threadFuncStep e (wk, w)))
         \<and> heap (snd (threadFuncStep e (wk, w))) = heap w
         \<and> heap (snd (threadFuncStep e (threadFuncStep e (wk, w))))
             = (heap w)[a := demote e (t\<lparr>state := kFailed\<rparr>)]
         \<and> calls (snd (threadFuncStep e (threadFuncStep e (wk, w))))
             = calls (snd (threadFuncStep e (wk, w))) @ [Demote a]
         \<and> filter isLoadOrPromote (calls (snd (threadFuncStep e (threadFuncStep e (wk, w)))))
             = filter isLoadOrPromote (calls w)"
proof -
  obtain wk1 w1 where s1: "threadFuncStep e (wk, w) = (wk1, w1)"
    by (cases "threadFuncStep e (wk, w)")
  have wk1: "wk1 = \<lparr>texture = Some a, pc = AtCooldown\<rparr>"
    using s1 head running front
    by (auto simp add: threadFuncStep_def Let_def split: option.splits)
  have q1: "m_textureQueue w1 = q" and d1: "m_dropRequests w1" and h1: "heap w1 = heap w"
    and c1: "filter isLoadOrPromote (calls w1) = filter isLoadOrPromote (calls w)"
    using s1 head running front drop
    by (auto simp add: threadFuncStep_def rtxIoKick_def Let_def split: option.splits)
  have s2: "threadFuncStep e (wk1, w1)
      = (wk1\<lparr>pc := AtLoopHead\<rparr>,
         w1\<lparr>heap := (heap w1)[a := demote e (t\<lparr>state := kFailed\<rparr>)],
            calls := calls w1 @ [Demote a]\<rparr>)"
    using wk1 d1 h1 rec by (simp add: threadFuncStep_def)
  show ?thesis
    unfolding s1 s2 using wk1 q1 d1 h1 c1 by simp
qed

theorem dropped_request_witness:
  "pc worker0 = AtLoopHead \<and> \<not> m_stopped (worldDraining kQueuedForUpload)
   \<and> m_dropRequests (worldDraining kQueuedForUpload)
   \<and> m_textureQueue (worldDraining kQueuedForUpload) = [0]
   \<and> lookup (heap (worldDraining kQueuedForUpload)) 0 = Some (tex10\<lparr>state := kQueuedForUpload\<rparr>)
   \<and> heap (snd (threadFuncStep specEnv (threadFuncStep specEnv
                (worker0, worldDraining kQueuedForUpload))))
       = [tex10\<lparr>state := kFailed\<rparr>]
   \<and> calls (snd (threadFuncStep specEnv (threadFuncStep specEnv
                (worker0, worldDraining kQueuedForUpload))))
       = [Demote 0]"
proof -
  let ?w = "worldDraining kQueuedForUpload"
  have p: "pc worker0 = AtLoopHead" by (simp add: worker0_def)
  have w: "\<not> m_stopped ?w" "m_dropRequests ?w" "m_textureQueue ?w = [0]"
    by (simp_all add: worldDraining_def worldWith_def world0_def)
  have l: "lookup (heap ?w) 0 = Some (tex10\<lparr>state := kQueuedForUpload\<rparr>)"
    by (simp add: worldDraining_def worldWith_def lookup_def)
  have c: "calls (snd (threadFuncStep specEnv (worker0, ?w))) = []"
    by (simp add: threadFuncStep_def worker0_def worldDraining_def worldWith_def world0_def
          rtxIoKick_def specEnv_def)
  have h: "heap ?w = [tex10\<lparr>state := kQueuedForUpload\<rparr>]"
    by (simp add: worldDraining_def worldWith_def)
  note th = dropped_request [OF p w l, of specEnv]
  from th have "heap (snd (threadFuncStep specEnv (threadFuncStep specEnv (worker0, ?w))))
       = [tex10\<lparr>state := kFailed\<rparr>]"
    by (simp add: h spec_defs tex10_def)
  moreover from th
  have "calls (snd (threadFuncStep specEnv (threadFuncStep specEnv (worker0, ?w)))) = [Demote 0]"
    by (simp add: c)
  ultimately show ?thesis using p w l by blast
qed

subsection \<open>The moves of \<open>state\<close>\<close>


















end
